theory Spec2Isabelle
  imports Main "HOL-Library.AList"
begin

section \<open>The transposed matrix view of linbox/matrix/transpose.h\<close>

text \<open>
  \<^verbatim>\<open>TransposeMatrix<Matrix, Trait>\<close> is a class template with a primary body and three
  specialisations, chosen by the iterator category \<^verbatim>\<open>Trait\<close> of the wrapped matrix. Every
  body holds one reference \<^verbatim>\<open>_A\<close> to the wrapped matrix and forwards each member to it.

  The embedding:
  \<^item> the template parameter \<^verbatim>\<open>Matrix\<close> is a parameter of every definition: a record of the
    member functions the view calls, over a type \<open>'m\<close> of matrix states;
  \<^item> a reference is an address into a store of matrices, so that two views of one matrix,
    and the matrix itself, share their updates;
  \<^item> a member that mutates returns the updated store; \<^verbatim>\<open>getEntry\<close>, which writes through
    its reference parameter \<^verbatim>\<open>x\<close>, takes the value of \<^verbatim>\<open>x\<close> before the call and returns the
    boolean result with the value of \<^verbatim>\<open>x\<close> after it;
  \<^item> \<^verbatim>\<open>size_t\<close> indices are naturals: the view does no arithmetic on them;
  \<^item> a member that a class body does not declare, or whose body is ill-formed over the
    wrapped matrix, has the result \<open>None\<close>: the call does not compile for that variant.
\<close>

subsection \<open>Iterators\<close>

text \<open>
  An iterator is a position in the sequence it traverses. \<^verbatim>\<open>*it\<close> reads the element at the
  position and \<^verbatim>\<open>++it\<close> moves to the next one; both are undefined past the end.
\<close>

datatype 'a iterator = Iterator (seq: "'a list") (pos: nat)

text \<open>
  The loop \<^verbatim>\<open>for (it = b; it != e; ++it) out.push_back (*it);\<close> over a range. It returns
  \<open>None\<close> when it would step past the end of the sequence without meeting \<open>e\<close>.
\<close>

function iterate :: "'a iterator \<Rightarrow> 'a iterator \<Rightarrow> 'a list option" where
  "iterate b e =
     (if b = e then Some []
      else if pos b < length (seq b)
        then map_option ((#) (seq b ! pos b)) (iterate (Iterator (seq b) (Suc (pos b))) e)
        else None)"
  by pat_completeness auto
termination
  by (relation "measure (\<lambda>(b, e). length (seq b) - pos b)") auto

declare iterate.simps [simp del]

text \<open>An element of the raw indexed iteration: the entry with the indices it reports.\<close>

datatype 'e indexed = Indexed (rowIndex: nat) (colIndex: nat) (entry: 'e)

subsection \<open>The wrapped matrix: the template parameter \<^verbatim>\<open>Matrix\<close>\<close>

text \<open>
  The members of \<^verbatim>\<open>Matrix\<close> that the bodies of \<^verbatim>\<open>TransposeMatrix\<close> call. The const and
  non-const overloads of an iterator accessor are one function here.

  The declaration of \<^verbatim>\<open>Matrix\<close> is not part of the source, so what the bodies need to know
  of it is part of the parameter: whether \<^verbatim>\<open>Matrix\<close> has the row iterators (the types
  \<^verbatim>\<open>RowIterator\<close>, \<^verbatim>\<open>ConstRowIterator\<close>, \<^verbatim>\<open>Row\<close> and the accessors \<^verbatim>\<open>rowBegin\<close>, \<^verbatim>\<open>rowEnd\<close>),
  whether it has the column iterators, and whether its \<^verbatim>\<open>setEntry\<close> is a const member
  function. A matrix without the row or the column iterators leaves the fields of the
  missing accessors unused.
\<close>

record ('m, 'e, 'row, 'col) Matrix =
  rowdim :: "'m \<Rightarrow> nat"
  coldim :: "'m \<Rightarrow> nat"
  setEntry :: "'m \<Rightarrow> nat \<Rightarrow> nat \<Rightarrow> 'e \<Rightarrow> 'm"
  eraseEntry :: "'m \<Rightarrow> nat \<Rightarrow> nat \<Rightarrow> 'm"
  getEntry :: "'m \<Rightarrow> 'e \<Rightarrow> nat \<Rightarrow> nat \<Rightarrow> bool \<times> 'e"
  rowBegin :: "'m \<Rightarrow> 'row iterator"
  rowEnd :: "'m \<Rightarrow> 'row iterator"
  colBegin :: "'m \<Rightarrow> 'col iterator"
  colEnd :: "'m \<Rightarrow> 'col iterator"
  rawBegin :: "'m \<Rightarrow> 'e iterator"
  rawEnd :: "'m \<Rightarrow> 'e iterator"
  rawIndexedBegin :: "'m \<Rightarrow> 'e indexed iterator"
  rawIndexedEnd :: "'m \<Rightarrow> 'e indexed iterator"
  has_row_iterators :: bool
  has_col_iterators :: bool
  setEntry_const :: bool

type_synonym 'm store = "nat \<Rightarrow> 'm"

subsection \<open>The view\<close>

text \<open>
  The second template argument. The three tags have a specialisation each; \<open>OtherTag\<close>
  stands for every other argument, which selects the primary template.
\<close>

datatype MatrixCategories = OtherTag | RowColMatrixTag | RowMatrixTag | ColMatrixTag

text \<open>
  A view: its variant and the address its member \<^verbatim>\<open>_A\<close> refers to. The constructor
  \<^verbatim>\<open>TransposeMatrix (Matrix &A) : _A (A)\<close> binds the reference and stores nothing else.
\<close>

datatype TransposeMatrix = TransposeMatrix (Trait: MatrixCategories) (ref_A: nat)

text \<open>The copy constructor \<^verbatim>\<open>TransposeMatrix (const TransposeMatrix &M) : _A (M._A)\<close>.\<close>

fun TransposeMatrix_copy :: "TransposeMatrix \<Rightarrow> TransposeMatrix" where
  "TransposeMatrix_copy (TransposeMatrix OtherTag a) = TransposeMatrix OtherTag a"
| "TransposeMatrix_copy (TransposeMatrix RowColMatrixTag a) = TransposeMatrix RowColMatrixTag a"
| "TransposeMatrix_copy (TransposeMatrix RowMatrixTag a) = TransposeMatrix RowMatrixTag a"
| "TransposeMatrix_copy (TransposeMatrix ColMatrixTag a) = TransposeMatrix ColMatrixTag a"

fun TransposeMatrix_rowdim ::
  "TransposeMatrix \<Rightarrow> ('m, 'e, 'row, 'col) Matrix \<Rightarrow> 'm store \<Rightarrow> nat" where
  "TransposeMatrix_rowdim (TransposeMatrix OtherTag a) M \<sigma> = coldim M (\<sigma> a)"
| "TransposeMatrix_rowdim (TransposeMatrix RowColMatrixTag a) M \<sigma> = coldim M (\<sigma> a)"
| "TransposeMatrix_rowdim (TransposeMatrix RowMatrixTag a) M \<sigma> = coldim M (\<sigma> a)"
| "TransposeMatrix_rowdim (TransposeMatrix ColMatrixTag a) M \<sigma> = coldim M (\<sigma> a)"

fun TransposeMatrix_coldim ::
  "TransposeMatrix \<Rightarrow> ('m, 'e, 'row, 'col) Matrix \<Rightarrow> 'm store \<Rightarrow> nat" where
  "TransposeMatrix_coldim (TransposeMatrix OtherTag a) M \<sigma> = rowdim M (\<sigma> a)"
| "TransposeMatrix_coldim (TransposeMatrix RowColMatrixTag a) M \<sigma> = rowdim M (\<sigma> a)"
| "TransposeMatrix_coldim (TransposeMatrix RowMatrixTag a) M \<sigma> = rowdim M (\<sigma> a)"
| "TransposeMatrix_coldim (TransposeMatrix ColMatrixTag a) M \<sigma> = rowdim M (\<sigma> a)"

text \<open>
  \<^verbatim>\<open>setEntry (i, j, a_ij) { _A.setEntry (j, i, a_ij); }\<close> in all four bodies. The primary
  template and the specialisations for \<^verbatim>\<open>RowColMatrixTag\<close> and \<^verbatim>\<open>RowMatrixTag\<close> hold
  \<^verbatim>\<open>Matrix &_A\<close>, and the call writes the wrapped matrix. The specialisation for
  \<^verbatim>\<open>ColMatrixTag\<close> holds \<^verbatim>\<open>const Matrix &_A\<close>: there the call is ill-formed unless
  \<^verbatim>\<open>setEntry\<close> is a const member of \<^verbatim>\<open>Matrix\<close>, and the view's \<^verbatim>\<open>setEntry\<close> does not compile.
\<close>

fun TransposeMatrix_setEntry ::
  "TransposeMatrix \<Rightarrow> ('m, 'e, 'row, 'col) Matrix \<Rightarrow> 'm store \<Rightarrow> nat \<Rightarrow> nat \<Rightarrow> 'e \<Rightarrow>
     'm store option"
  where
  "TransposeMatrix_setEntry (TransposeMatrix OtherTag a) M \<sigma> i j a_ij =
     Some (\<sigma>(a := setEntry M (\<sigma> a) j i a_ij))"
| "TransposeMatrix_setEntry (TransposeMatrix RowColMatrixTag a) M \<sigma> i j a_ij =
     Some (\<sigma>(a := setEntry M (\<sigma> a) j i a_ij))"
| "TransposeMatrix_setEntry (TransposeMatrix RowMatrixTag a) M \<sigma> i j a_ij =
     Some (\<sigma>(a := setEntry M (\<sigma> a) j i a_ij))"
| "TransposeMatrix_setEntry (TransposeMatrix ColMatrixTag a) M \<sigma> i j a_ij =
     (if setEntry_const M then Some (\<sigma>(a := setEntry M (\<sigma> a) j i a_ij)) else None)"

text \<open>
  \<^verbatim>\<open>eraseEntry (i, j) { _A.eraseEntry (j, i); }\<close> is a member of the primary template
  only. None of the three specialisations declares it.
\<close>

fun TransposeMatrix_eraseEntry ::
  "TransposeMatrix \<Rightarrow> ('m, 'e, 'row, 'col) Matrix \<Rightarrow> 'm store \<Rightarrow> nat \<Rightarrow> nat \<Rightarrow> 'm store option"
  where
  "TransposeMatrix_eraseEntry (TransposeMatrix OtherTag a) M \<sigma> i j =
     Some (\<sigma>(a := eraseEntry M (\<sigma> a) j i))"
| "TransposeMatrix_eraseEntry (TransposeMatrix RowColMatrixTag a) M \<sigma> i j = None"
| "TransposeMatrix_eraseEntry (TransposeMatrix RowMatrixTag a) M \<sigma> i j = None"
| "TransposeMatrix_eraseEntry (TransposeMatrix ColMatrixTag a) M \<sigma> i j = None"

text \<open>\<^verbatim>\<open>getEntry (x, i, j) const { return _A.getEntry (x, j, i); }\<close> in all four bodies.\<close>

fun TransposeMatrix_getEntry ::
  "TransposeMatrix \<Rightarrow> ('m, 'e, 'row, 'col) Matrix \<Rightarrow> 'm store \<Rightarrow> 'e \<Rightarrow> nat \<Rightarrow> nat \<Rightarrow> bool \<times> 'e"
  where
  "TransposeMatrix_getEntry (TransposeMatrix OtherTag a) M \<sigma> x i j = getEntry M (\<sigma> a) x j i"
| "TransposeMatrix_getEntry (TransposeMatrix RowColMatrixTag a) M \<sigma> x i j =
     getEntry M (\<sigma> a) x j i"
| "TransposeMatrix_getEntry (TransposeMatrix RowMatrixTag a) M \<sigma> x i j = getEntry M (\<sigma> a) x j i"
| "TransposeMatrix_getEntry (TransposeMatrix ColMatrixTag a) M \<sigma> x i j = getEntry M (\<sigma> a) x j i"

text \<open>
  The row accessors return the wrapped matrix's column iterators. The row-only
  specialisation declares neither of them.
\<close>

fun TransposeMatrix_rowBegin ::
  "TransposeMatrix \<Rightarrow> ('m, 'e, 'row, 'col) Matrix \<Rightarrow> 'm store \<Rightarrow> 'col iterator option" where
  "TransposeMatrix_rowBegin (TransposeMatrix OtherTag a) M \<sigma> = Some (colBegin M (\<sigma> a))"
| "TransposeMatrix_rowBegin (TransposeMatrix RowColMatrixTag a) M \<sigma> = Some (colBegin M (\<sigma> a))"
| "TransposeMatrix_rowBegin (TransposeMatrix RowMatrixTag a) M \<sigma> = None"
| "TransposeMatrix_rowBegin (TransposeMatrix ColMatrixTag a) M \<sigma> = Some (colBegin M (\<sigma> a))"

fun TransposeMatrix_rowEnd ::
  "TransposeMatrix \<Rightarrow> ('m, 'e, 'row, 'col) Matrix \<Rightarrow> 'm store \<Rightarrow> 'col iterator option" where
  "TransposeMatrix_rowEnd (TransposeMatrix OtherTag a) M \<sigma> = Some (colEnd M (\<sigma> a))"
| "TransposeMatrix_rowEnd (TransposeMatrix RowColMatrixTag a) M \<sigma> = Some (colEnd M (\<sigma> a))"
| "TransposeMatrix_rowEnd (TransposeMatrix RowMatrixTag a) M \<sigma> = None"
| "TransposeMatrix_rowEnd (TransposeMatrix ColMatrixTag a) M \<sigma> = Some (colEnd M (\<sigma> a))"

text \<open>
  The column accessors return the wrapped matrix's row iterators. The column-only
  specialisation declares neither of them.
\<close>

fun TransposeMatrix_colBegin ::
  "TransposeMatrix \<Rightarrow> ('m, 'e, 'row, 'col) Matrix \<Rightarrow> 'm store \<Rightarrow> 'row iterator option" where
  "TransposeMatrix_colBegin (TransposeMatrix OtherTag a) M \<sigma> = Some (rowBegin M (\<sigma> a))"
| "TransposeMatrix_colBegin (TransposeMatrix RowColMatrixTag a) M \<sigma> = Some (rowBegin M (\<sigma> a))"
| "TransposeMatrix_colBegin (TransposeMatrix RowMatrixTag a) M \<sigma> = Some (rowBegin M (\<sigma> a))"
| "TransposeMatrix_colBegin (TransposeMatrix ColMatrixTag a) M \<sigma> = None"

fun TransposeMatrix_colEnd ::
  "TransposeMatrix \<Rightarrow> ('m, 'e, 'row, 'col) Matrix \<Rightarrow> 'm store \<Rightarrow> 'row iterator option" where
  "TransposeMatrix_colEnd (TransposeMatrix OtherTag a) M \<sigma> = Some (rowEnd M (\<sigma> a))"
| "TransposeMatrix_colEnd (TransposeMatrix RowColMatrixTag a) M \<sigma> = Some (rowEnd M (\<sigma> a))"
| "TransposeMatrix_colEnd (TransposeMatrix RowMatrixTag a) M \<sigma> = Some (rowEnd M (\<sigma> a))"
| "TransposeMatrix_colEnd (TransposeMatrix ColMatrixTag a) M \<sigma> = None"

text \<open>The raw and the raw indexed accessors, in all four bodies, return the wrapped
  matrix's own.\<close>

fun TransposeMatrix_rawBegin ::
  "TransposeMatrix \<Rightarrow> ('m, 'e, 'row, 'col) Matrix \<Rightarrow> 'm store \<Rightarrow> 'e iterator" where
  "TransposeMatrix_rawBegin (TransposeMatrix OtherTag a) M \<sigma> = rawBegin M (\<sigma> a)"
| "TransposeMatrix_rawBegin (TransposeMatrix RowColMatrixTag a) M \<sigma> = rawBegin M (\<sigma> a)"
| "TransposeMatrix_rawBegin (TransposeMatrix RowMatrixTag a) M \<sigma> = rawBegin M (\<sigma> a)"
| "TransposeMatrix_rawBegin (TransposeMatrix ColMatrixTag a) M \<sigma> = rawBegin M (\<sigma> a)"

fun TransposeMatrix_rawEnd ::
  "TransposeMatrix \<Rightarrow> ('m, 'e, 'row, 'col) Matrix \<Rightarrow> 'm store \<Rightarrow> 'e iterator" where
  "TransposeMatrix_rawEnd (TransposeMatrix OtherTag a) M \<sigma> = rawEnd M (\<sigma> a)"
| "TransposeMatrix_rawEnd (TransposeMatrix RowColMatrixTag a) M \<sigma> = rawEnd M (\<sigma> a)"
| "TransposeMatrix_rawEnd (TransposeMatrix RowMatrixTag a) M \<sigma> = rawEnd M (\<sigma> a)"
| "TransposeMatrix_rawEnd (TransposeMatrix ColMatrixTag a) M \<sigma> = rawEnd M (\<sigma> a)"

fun TransposeMatrix_rawIndexedBegin ::
  "TransposeMatrix \<Rightarrow> ('m, 'e, 'row, 'col) Matrix \<Rightarrow> 'm store \<Rightarrow> 'e indexed iterator" where
  "TransposeMatrix_rawIndexedBegin (TransposeMatrix OtherTag a) M \<sigma> = rawIndexedBegin M (\<sigma> a)"
| "TransposeMatrix_rawIndexedBegin (TransposeMatrix RowColMatrixTag a) M \<sigma> =
     rawIndexedBegin M (\<sigma> a)"
| "TransposeMatrix_rawIndexedBegin (TransposeMatrix RowMatrixTag a) M \<sigma> =
     rawIndexedBegin M (\<sigma> a)"
| "TransposeMatrix_rawIndexedBegin (TransposeMatrix ColMatrixTag a) M \<sigma> =
     rawIndexedBegin M (\<sigma> a)"

fun TransposeMatrix_rawIndexedEnd ::
  "TransposeMatrix \<Rightarrow> ('m, 'e, 'row, 'col) Matrix \<Rightarrow> 'm store \<Rightarrow> 'e indexed iterator" where
  "TransposeMatrix_rawIndexedEnd (TransposeMatrix OtherTag a) M \<sigma> = rawIndexedEnd M (\<sigma> a)"
| "TransposeMatrix_rawIndexedEnd (TransposeMatrix RowColMatrixTag a) M \<sigma> =
     rawIndexedEnd M (\<sigma> a)"
| "TransposeMatrix_rawIndexedEnd (TransposeMatrix RowMatrixTag a) M \<sigma> = rawIndexedEnd M (\<sigma> a)"
| "TransposeMatrix_rawIndexedEnd (TransposeMatrix ColMatrixTag a) M \<sigma> = rawIndexedEnd M (\<sigma> a)"

text \<open>
  The member typedef \<^verbatim>\<open>MatrixCategory\<close>: the specialisation for \<^verbatim>\<open>RowColMatrixTag\<close> declares
  \<^verbatim>\<open>RowColMatrixTag\<close>, the one for \<^verbatim>\<open>RowMatrixTag\<close> declares \<^verbatim>\<open>ColMatrixTag\<close>, the one for
  \<^verbatim>\<open>ColMatrixTag\<close> declares \<^verbatim>\<open>RowMatrixTag\<close>, and the primary template declares none.
\<close>

fun TransposeMatrix_MatrixCategory :: "MatrixCategories \<Rightarrow> MatrixCategories option" where
  "TransposeMatrix_MatrixCategory OtherTag = None"
| "TransposeMatrix_MatrixCategory RowColMatrixTag = Some RowColMatrixTag"
| "TransposeMatrix_MatrixCategory RowMatrixTag = Some ColMatrixTag"
| "TransposeMatrix_MatrixCategory ColMatrixTag = Some RowMatrixTag"


subsection \<open>Categories and capabilities\<close>

text \<open>
  Modelled from the spec: the capability-classification mechanism of linbox/matrix/traits.h
  (\<^verbatim>\<open>MatrixTraits\<close>, \<^verbatim>\<open>MatrixIteratorTypes\<close>) is missing from the source. By the spec it assigns
  every matrix type one category of the closed set row-and-column, row-only, column-only,
  unspecified; a type that declares none of the three tags is unspecified.
\<close>

definition category_of_declared :: "MatrixCategories option \<Rightarrow> MatrixCategories" where
  "category_of_declared d = (case d of None \<Rightarrow> OtherTag | Some c \<Rightarrow> c)"

text \<open>The category of a view, as its consumers see it, from the variant of the view.\<close>

definition TransposeMatrix_category :: "MatrixCategories \<Rightarrow> MatrixCategories" where
  "TransposeMatrix_category c = category_of_declared (TransposeMatrix_MatrixCategory c)"

text \<open>
  The member typedefs of a body name types of \<^verbatim>\<open>Matrix\<close>, so the class is well-formed only
  over a matrix that has them. The primary template and the specialisation for
  \<^verbatim>\<open>RowColMatrixTag\<close> name \<^verbatim>\<open>Matrix::ColIterator\<close> and \<^verbatim>\<open>Matrix::RowIterator\<close> (with the
  const iterators, \<^verbatim>\<open>Row\<close> and \<^verbatim>\<open>Col\<close>); the specialisation for \<^verbatim>\<open>RowMatrixTag\<close> names
  \<^verbatim>\<open>Matrix::RowIterator\<close>, \<^verbatim>\<open>Matrix::ConstRowIterator\<close> and \<^verbatim>\<open>Matrix::Row\<close> only; the one for
  \<^verbatim>\<open>ColMatrixTag\<close> names \<^verbatim>\<open>Matrix::ColIterator\<close>, \<^verbatim>\<open>Matrix::ConstColIterator\<close> and
  \<^verbatim>\<open>Matrix::Col\<close> only.
\<close>

fun TransposeMatrix_instantiable ::
  "MatrixCategories \<Rightarrow> ('m, 'e, 'row, 'col) Matrix \<Rightarrow> bool" where
  "TransposeMatrix_instantiable OtherTag M = (has_col_iterators M \<and> has_row_iterators M)"
| "TransposeMatrix_instantiable RowColMatrixTag M = (has_col_iterators M \<and> has_row_iterators M)"
| "TransposeMatrix_instantiable RowMatrixTag M = has_row_iterators M"
| "TransposeMatrix_instantiable ColMatrixTag M = has_col_iterators M"

subsection \<open>Traversals through the view\<close>

text \<open>
  The vectors met from \<^verbatim>\<open>view.rowBegin ()\<close> to \<^verbatim>\<open>view.rowEnd ()\<close>, and from
  \<^verbatim>\<open>view.colBegin ()\<close> to \<^verbatim>\<open>view.colEnd ()\<close>: \<open>None\<close> when the variant has no such
  accessors, otherwise the result of the loop.
\<close>

definition row_sequence ::
  "TransposeMatrix \<Rightarrow> ('m, 'e, 'row, 'col) Matrix \<Rightarrow> 'm store \<Rightarrow> 'col list option option" where
  "row_sequence V M \<sigma> =
     (case TransposeMatrix_rowBegin V M \<sigma> of
        None \<Rightarrow> None
      | Some b \<Rightarrow>
          (case TransposeMatrix_rowEnd V M \<sigma> of None \<Rightarrow> None | Some e \<Rightarrow> Some (iterate b e)))"

definition col_sequence ::
  "TransposeMatrix \<Rightarrow> ('m, 'e, 'row, 'col) Matrix \<Rightarrow> 'm store \<Rightarrow> 'row list option option" where
  "col_sequence V M \<sigma> =
     (case TransposeMatrix_colBegin V M \<sigma> of
        None \<Rightarrow> None
      | Some b \<Rightarrow>
          (case TransposeMatrix_colEnd V M \<sigma> of None \<Rightarrow> None | Some e \<Rightarrow> Some (iterate b e)))"

subsection \<open>What the view relies on in the wrapped matrix\<close>

text \<open>
  The view only forwards, so what a write followed by a read returns, and what a failed
  read does to \<^verbatim>\<open>x\<close>, are decided by \<^verbatim>\<open>Matrix\<close>. The two properties of the matrix
  archetype that the statements below need are predicates on the parameter: an entry set at
  a valid position is the entry read there, and a read that returns false leaves \<^verbatim>\<open>x\<close> as
  it was.
\<close>

definition stores_on_set :: "('m, 'e, 'row, 'col) Matrix \<Rightarrow> bool" where
  "stores_on_set M \<longleftrightarrow>
     (\<forall>m i j v x. i < rowdim M m \<longrightarrow> j < coldim M m \<longrightarrow>
        getEntry M (setEntry M m i j v) x i j = (True, v))"

definition keeps_x_when_absent :: "('m, 'e, 'row, 'col) Matrix \<Rightarrow> bool" where
  "keeps_x_when_absent M \<longleftrightarrow>
     (\<forall>m x i j. i < rowdim M m \<longrightarrow> j < coldim M m \<longrightarrow>
        \<not> fst (getEntry M m x i j) \<longrightarrow> snd (getEntry M m x i j) = x)"

subsection \<open>Two wrapped matrices\<close>

text \<open>
  Modelled from the spec: the sparse and dense matrix classes are not part of the source.
  By the spec a sparse matrix stores only explicit entries, its read returns false for an
  absent entry and leaves \<^verbatim>\<open>x\<close>, its write inserts or overwrites and its erase removes the
  stored entry if present. The model keeps the entries in an association list keyed by
  (row, column). It is a row matrix: it has the row iterators and no column iterators, a
  row vector is the list of (column, value) pairs of the row's entries, and its
  \<^verbatim>\<open>setEntry\<close> is not a const member. Indices are not checked against the dimensions.
\<close>

datatype 'e SparseMatrix =
  SparseMatrix (s_rowdim: nat) (s_coldim: nat) (s_rep: "((nat \<times> nat) \<times> 'e) list")

definition sparse_setEntry :: "'e SparseMatrix \<Rightarrow> nat \<Rightarrow> nat \<Rightarrow> 'e \<Rightarrow> 'e SparseMatrix" where
  "sparse_setEntry m i j v =
     SparseMatrix (s_rowdim m) (s_coldim m) (AList.update (i, j) v (s_rep m))"

definition sparse_eraseEntry :: "'e SparseMatrix \<Rightarrow> nat \<Rightarrow> nat \<Rightarrow> 'e SparseMatrix" where
  "sparse_eraseEntry m i j =
     SparseMatrix (s_rowdim m) (s_coldim m) (AList.delete (i, j) (s_rep m))"

definition sparse_getEntry :: "'e SparseMatrix \<Rightarrow> 'e \<Rightarrow> nat \<Rightarrow> nat \<Rightarrow> bool \<times> 'e" where
  "sparse_getEntry m x i j =
     (case map_of (s_rep m) (i, j) of None \<Rightarrow> (False, x) | Some v \<Rightarrow> (True, v))"

definition sparse_row :: "'e SparseMatrix \<Rightarrow> nat \<Rightarrow> (nat \<times> 'e) list" where
  "sparse_row m i = map (\<lambda>((r, c), v). (c, v)) (filter (\<lambda>((r, c), v). r = i) (s_rep m))"

definition sparse_rows :: "'e SparseMatrix \<Rightarrow> (nat \<times> 'e) list list" where
  "sparse_rows m = map (sparse_row m) [0..<s_rowdim m]"

definition sparse_indexed :: "'e SparseMatrix \<Rightarrow> 'e indexed list" where
  "sparse_indexed m = map (\<lambda>((r, c), v). Indexed r c v) (s_rep m)"

definition Sparse :: "('e SparseMatrix, 'e, (nat \<times> 'e) list, (nat \<times> 'e) list) Matrix" where
  "Sparse =
     \<lparr>rowdim = s_rowdim, coldim = s_coldim, setEntry = sparse_setEntry,
      eraseEntry = sparse_eraseEntry, getEntry = sparse_getEntry,
      rowBegin = (\<lambda>m. Iterator (sparse_rows m) 0),
      rowEnd = (\<lambda>m. Iterator (sparse_rows m) (length (sparse_rows m))),
      colBegin = (\<lambda>m. Iterator [] 0),
      colEnd = (\<lambda>m. Iterator [] 0),
      rawBegin = (\<lambda>m. Iterator (map snd (s_rep m)) 0),
      rawEnd = (\<lambda>m. Iterator (map snd (s_rep m)) (length (s_rep m))),
      rawIndexedBegin = (\<lambda>m. Iterator (sparse_indexed m) 0),
      rawIndexedEnd = (\<lambda>m. Iterator (sparse_indexed m) (length (sparse_indexed m))),
      has_row_iterators = True, has_col_iterators = False, setEntry_const = False\<rparr>"

text \<open>
  Modelled from the spec: a dense matrix stores a value for every position, its read always
  returns true and its erase is a no-op that retains the value. The model keeps the values
  in a function of the row and the column; it has the row and the column iterators, a row
  or column vector is the list of its values, and its \<^verbatim>\<open>setEntry\<close> is not a const member.
\<close>

datatype 'e DenseMatrix =
  DenseMatrix (d_rowdim: nat) (d_coldim: nat) (d_rep: "nat \<Rightarrow> nat \<Rightarrow> 'e")

definition dense_setEntry :: "'e DenseMatrix \<Rightarrow> nat \<Rightarrow> nat \<Rightarrow> 'e \<Rightarrow> 'e DenseMatrix" where
  "dense_setEntry m i j v =
     DenseMatrix (d_rowdim m) (d_coldim m) ((d_rep m)(i := (d_rep m i)(j := v)))"

definition dense_eraseEntry :: "'e DenseMatrix \<Rightarrow> nat \<Rightarrow> nat \<Rightarrow> 'e DenseMatrix" where
  "dense_eraseEntry m i j = m"

definition dense_getEntry :: "'e DenseMatrix \<Rightarrow> 'e \<Rightarrow> nat \<Rightarrow> nat \<Rightarrow> bool \<times> 'e" where
  "dense_getEntry m x i j = (True, d_rep m i j)"

definition dense_rows :: "'e DenseMatrix \<Rightarrow> 'e list list" where
  "dense_rows m = map (\<lambda>i. map (\<lambda>j. d_rep m i j) [0..<d_coldim m]) [0..<d_rowdim m]"

definition dense_cols :: "'e DenseMatrix \<Rightarrow> 'e list list" where
  "dense_cols m = map (\<lambda>j. map (\<lambda>i. d_rep m i j) [0..<d_rowdim m]) [0..<d_coldim m]"

definition dense_indexed :: "'e DenseMatrix \<Rightarrow> 'e indexed list" where
  "dense_indexed m =
     concat (map (\<lambda>i. map (\<lambda>j. Indexed i j (d_rep m i j)) [0..<d_coldim m]) [0..<d_rowdim m])"

definition Dense :: "('e DenseMatrix, 'e, 'e list, 'e list) Matrix" where
  "Dense =
     \<lparr>rowdim = d_rowdim, coldim = d_coldim, setEntry = dense_setEntry,
      eraseEntry = dense_eraseEntry, getEntry = dense_getEntry,
      rowBegin = (\<lambda>m. Iterator (dense_rows m) 0),
      rowEnd = (\<lambda>m. Iterator (dense_rows m) (length (dense_rows m))),
      colBegin = (\<lambda>m. Iterator (dense_cols m) 0),
      colEnd = (\<lambda>m. Iterator (dense_cols m) (length (dense_cols m))),
      rawBegin = (\<lambda>m. Iterator (concat (dense_rows m)) 0),
      rawEnd = (\<lambda>m. Iterator (concat (dense_rows m)) (length (concat (dense_rows m)))),
      rawIndexedBegin = (\<lambda>m. Iterator (dense_indexed m) 0),
      rawIndexedEnd = (\<lambda>m. Iterator (dense_indexed m) (length (dense_indexed m))),
      has_row_iterators = True, has_col_iterators = True, setEntry_const = False\<rparr>"

text \<open>
  The sparse matrix of the spec's scenario: 2 rows, 3 columns, the entries \<open>(0, 0) = 1\<close>
  and \<open>(1, 2) = 5\<close>; a store that holds it; and a dense 2 by 3 matrix with the entry
  \<open>10 i + j\<close> at \<open>(i, j)\<close>.
\<close>

definition example :: "int SparseMatrix" where
  "example = SparseMatrix 2 3 [((0, 0), 1), ((1, 2), 5)]"

definition example_store :: "int SparseMatrix store" where
  "example_store = (\<lambda>a. example)"

definition dense_example :: "int DenseMatrix" where
  "dense_example = DenseMatrix 2 3 (\<lambda>i j. 10 * int i + int j)"

definition dense_store :: "int DenseMatrix store" where
  "dense_store = (\<lambda>a. dense_example)"

section \<open>Forwarding lemmas\<close>

lemma rowdim_store: "TransposeMatrix_rowdim V M \<sigma> = coldim M (\<sigma> (ref_A V))"
  by (cases "(V, M, \<sigma>)" rule: TransposeMatrix_rowdim.cases) simp_all

lemma coldim_store: "TransposeMatrix_coldim V M \<sigma> = rowdim M (\<sigma> (ref_A V))"
  by (cases "(V, M, \<sigma>)" rule: TransposeMatrix_coldim.cases) simp_all

lemma setEntry_store:
  "TransposeMatrix_setEntry V M \<sigma> i j v =
     (if Trait V = ColMatrixTag \<and> \<not> setEntry_const M then None
      else Some (\<sigma>(ref_A V := setEntry M (\<sigma> (ref_A V)) j i v)))"
  by (cases "(V, M, \<sigma>, i, j, v)" rule: TransposeMatrix_setEntry.cases) simp_all

lemma getEntry_store:
  "TransposeMatrix_getEntry V M \<sigma> x i j = getEntry M (\<sigma> (ref_A V)) x j i"
  by (cases "(V, M, \<sigma>, x, i, j)" rule: TransposeMatrix_getEntry.cases) simp_all

lemma copy_same: "TransposeMatrix_copy V = V"
  by (cases V rule: TransposeMatrix_copy.cases) simp_all

lemma valid_swapped:
  assumes "i < TransposeMatrix_rowdim V M \<sigma>" and "j < TransposeMatrix_coldim V M \<sigma>"
  shows "j < rowdim M (\<sigma> (ref_A V))" and "i < coldim M (\<sigma> (ref_A V))"
  using assms by (simp_all add: rowdim_store coldim_store)

subsection \<open>The two models meet the archetype\<close>

lemma sparse_stores_on_set: "stores_on_set Sparse"
  by (simp add: stores_on_set_def Sparse_def sparse_getEntry_def sparse_setEntry_def
      update_conv')

lemma sparse_keeps_x_when_absent: "keeps_x_when_absent Sparse"
  by (simp add: keeps_x_when_absent_def Sparse_def sparse_getEntry_def split: option.split)

lemma dense_stores_on_set: "stores_on_set Dense"
  by (simp add: stores_on_set_def Dense_def dense_getEntry_def dense_setEntry_def)

lemma dense_keeps_x_when_absent: "keeps_x_when_absent Dense"
  by (simp add: keeps_x_when_absent_def Dense_def dense_getEntry_def)

lemma example_dims:
  "TransposeMatrix_rowdim V Sparse example_store = 3"
  "TransposeMatrix_coldim V Sparse example_store = 2"
  by (simp_all add: rowdim_store coldim_store Sparse_def example_store_def example_def)

text \<open>
  The scenario of the spec on the sparse matrix, through a view of any variant: the
  dimensions are swapped, \<open>(0, 1)\<close> is absent and leaves \<^verbatim>\<open>x\<close>, \<open>(2, 1)\<close> holds 5, and 9
  written at \<open>(0, 1)\<close> through the row-only variant is read at \<open>(1, 0)\<close> of the wrapped
  matrix.
\<close>

lemma spec_scenario:
  "TransposeMatrix_rowdim V Sparse example_store = 3"
  "TransposeMatrix_coldim V Sparse example_store = 2"
  "TransposeMatrix_getEntry V Sparse example_store x 0 1 = (False, x)"
  "TransposeMatrix_getEntry V Sparse example_store x 2 1 = (True, 5)"
  "map_option (\<lambda>\<sigma>'. getEntry Sparse (\<sigma>' a) y 1 0)
     (TransposeMatrix_setEntry (TransposeMatrix RowMatrixTag a) Sparse example_store 0 1 9)
     = Some (True, 9)"
  by (simp_all add: rowdim_store coldim_store getEntry_store setEntry_store Sparse_def
      example_store_def example_def sparse_getEntry_def sparse_setEntry_def)

section \<open>Entries and dimensions\<close>

text \<open>
  C1. For every view, in each of the four variants, and all indices \<open>i\<close>, \<open>j\<close> (the valid
  ones among them), \<^verbatim>\<open>view.getEntry (x, i, j)\<close> is \<^verbatim>\<open>wrapped.getEntry (x, j, i)\<close>: the same
  boolean result and the same value left in \<^verbatim>\<open>x\<close>. Reading entry \<open>(i, j)\<close> through the view
  is reading entry \<open>(j, i)\<close> of the wrapped matrix.
\<close>

theorem getEntry_transposed:
  "TransposeMatrix_getEntry V M \<sigma> x i j = getEntry M (\<sigma> (ref_A V)) x j i"
  by (rule getEntry_store)

text \<open>
  C2. For every view, in each of the four variants, the view's row count is the wrapped
  matrix's column count and its column count is the wrapped matrix's row count. The view
  stores no dimension: the equations hold in every store, so in every state the wrapped
  matrix reaches while the view lives.
\<close>

theorem dimensions_transposed:
  "TransposeMatrix_rowdim V M \<sigma> = coldim M (\<sigma> (ref_A V)) \<and>
   TransposeMatrix_coldim V M \<sigma> = rowdim M (\<sigma> (ref_A V))"
  by (simp add: rowdim_store coldim_store)

text \<open>
  C3. Evaluation of \<^verbatim>\<open>view.setEntry\<close> on the column-only variant: over the dense 2 by 3
  matrix, whose \<^verbatim>\<open>setEntry\<close> is not a const member, \<^verbatim>\<open>view.setEntry (2, 1, 9)\<close> through the
  specialisation for \<^verbatim>\<open>ColMatrixTag\<close> does not compile, so nothing is written, while the
  same call through the specialisation for \<^verbatim>\<open>RowColMatrixTag\<close> writes 9 at \<open>(1, 2)\<close> of the
  wrapped matrix.
\<close>

theorem setEntry_ill_formed_in_column_only:
  "\<not> setEntry_const (Dense :: (int DenseMatrix, int, int list, int list) Matrix) \<and>
   TransposeMatrix_setEntry (TransposeMatrix ColMatrixTag 0) Dense dense_store 2 1 9 = None \<and>
   map_option (\<lambda>\<sigma>'. getEntry Dense (\<sigma>' 0) 0 1 2)
     (TransposeMatrix_setEntry (TransposeMatrix RowColMatrixTag 0) Dense dense_store 2 1 9)
     = Some (True, 9)"
  by (simp add: Dense_def dense_getEntry_def dense_setEntry_def)

text \<open>
  Where the call is well-formed, that is in the three other variants, and in the
  column-only variant over a matrix with a const \<^verbatim>\<open>setEntry\<close>, it changes the store as
  \<^verbatim>\<open>wrapped.setEntry (j, i, v)\<close> does, and at indices valid for the view
  \<^verbatim>\<open>wrapped.getEntry (x, j, i)\<close> then returns true with \<open>x = v\<close>, over a wrapped matrix that
  returns at a valid position the entry set there.
\<close>

lemma setEntry_well_formed:
  "(TransposeMatrix_setEntry V M \<sigma> i j v \<noteq> None) =
     (Trait V = ColMatrixTag \<longrightarrow> setEntry_const M)"
  by (simp add: setEntry_store)

lemma setEntry_written_then_read:
  assumes "stores_on_set M"
    and "i < TransposeMatrix_rowdim V M \<sigma>" and "j < TransposeMatrix_coldim V M \<sigma>"
    and "TransposeMatrix_setEntry V M \<sigma> i j v = Some \<sigma>'"
  shows "\<sigma>' = \<sigma>(ref_A V := setEntry M (\<sigma> (ref_A V)) j i v)"
    and "getEntry M (\<sigma>' (ref_A V)) x j i = (True, v)"
proof -
  show s: "\<sigma>' = \<sigma>(ref_A V := setEntry M (\<sigma> (ref_A V)) j i v)"
    using assms(4) by (simp add: setEntry_store split: if_splits)
  have "j < rowdim M (\<sigma> (ref_A V))" and "i < coldim M (\<sigma> (ref_A V))"
    using assms(2,3) by (rule valid_swapped)+
  with assms(1) have "getEntry M (setEntry M (\<sigma> (ref_A V)) j i v) x j i = (True, v)"
    unfolding stores_on_set_def by blast
  then show "getEntry M (\<sigma>' (ref_A V)) x j i = (True, v)"
    by (simp add: s)
qed

text \<open>
  C4. Evaluation of \<^verbatim>\<open>view.eraseEntry\<close> on the specialisations: the views of the
  row-and-column, the row-only and the column-only variant over the sparse matrix of the
  scenario have no member \<^verbatim>\<open>eraseEntry\<close>, so the entry \<open>(2, 1)\<close> of the view cannot be
  erased through them.
\<close>

theorem eraseEntry_not_in_specialisations:
  "TransposeMatrix_eraseEntry (TransposeMatrix RowColMatrixTag 0) Sparse example_store 2 1 = None \<and>
   TransposeMatrix_eraseEntry (TransposeMatrix RowMatrixTag 0) Sparse example_store 2 1 = None \<and>
   TransposeMatrix_eraseEntry (TransposeMatrix ColMatrixTag 0) Sparse example_store 2 1 = None"
  by simp

text \<open>
  The primary template has the member. It forwards with the indices exchanged; over the
  sparse model a read after it returns false and leaves \<^verbatim>\<open>x\<close>, over the dense model the
  read returns the value that was there.
\<close>

lemma eraseEntry_primary:
  "TransposeMatrix_eraseEntry (TransposeMatrix OtherTag a) M \<sigma> i j =
     Some (\<sigma>(a := eraseEntry M (\<sigma> a) j i))"
  by simp

lemma eraseEntry_primary_sparse:
  "TransposeMatrix_eraseEntry (TransposeMatrix OtherTag a) Sparse \<sigma> i j = Some \<sigma>' \<Longrightarrow>
   TransposeMatrix_getEntry (TransposeMatrix OtherTag a) Sparse \<sigma>' x i j = (False, x)"
  by (auto simp add: Sparse_def sparse_getEntry_def sparse_eraseEntry_def delete_conv')

lemma eraseEntry_primary_dense:
  "TransposeMatrix_eraseEntry (TransposeMatrix OtherTag a) Dense \<sigma> i j = Some \<sigma>' \<Longrightarrow>
   TransposeMatrix_getEntry (TransposeMatrix OtherTag a) Dense \<sigma>' x i j =
     TransposeMatrix_getEntry (TransposeMatrix OtherTag a) Dense \<sigma> x i j"
  by (auto simp add: Dense_def dense_getEntry_def dense_eraseEntry_def)

lemma eraseEntry_primary_examples:
  "map_option (\<lambda>\<sigma>'. TransposeMatrix_getEntry (TransposeMatrix OtherTag 0) Sparse \<sigma>' 7 2 1)
     (TransposeMatrix_eraseEntry (TransposeMatrix OtherTag 0) Sparse example_store 2 1)
     = Some (False, 7)"
  "map_option (\<lambda>\<sigma>'. TransposeMatrix_getEntry (TransposeMatrix OtherTag 0) Dense \<sigma>' 7 2 1)
     (TransposeMatrix_eraseEntry (TransposeMatrix OtherTag 0) Dense dense_store 2 1)
     = Some (True, 12)"
  by (simp_all add: Sparse_def sparse_getEntry_def sparse_eraseEntry_def example_store_def
      example_def Dense_def dense_getEntry_def dense_eraseEntry_def dense_store_def
      dense_example_def)

section \<open>Categories and iteration\<close>

text \<open>
  C5. The category of a view is the complement of the category of the wrapped matrix:
  row-only gives column-only, column-only gives row-only, row-and-column gives
  row-and-column, and the primary template, chosen for any other category, declares no
  category, which is unspecified. The view of a view has the category of the matrix.
\<close>

theorem category_complement:
  "TransposeMatrix_MatrixCategory RowMatrixTag = Some ColMatrixTag \<and>
   TransposeMatrix_MatrixCategory ColMatrixTag = Some RowMatrixTag \<and>
   TransposeMatrix_MatrixCategory RowColMatrixTag = Some RowColMatrixTag \<and>
   TransposeMatrix_MatrixCategory OtherTag = None \<and>
   TransposeMatrix_category OtherTag = OtherTag \<and>
   TransposeMatrix_category (TransposeMatrix_category c) = c"
  by (cases c) (simp_all add: TransposeMatrix_category_def category_of_declared_def)

text \<open>
  C6. Over every wrapped matrix for which the view's class is well-formed: a view that has
  the row accessors wraps a matrix with column iterators, and a view that has the column
  accessors wraps a matrix with row iterators, so the view claims no capability that the
  wrapped matrix lacks. The converse holds when the variant's tag states exactly what the
  matrix has (a matrix under the row-only variant has no column iterators, one under the
  column-only variant has no row iterators): then the view has the row accessors exactly
  when the wrapped matrix has column iterators, and the column accessors exactly when it
  has row iterators. Whatever the wrapped matrix has, the row-only variant has the column
  accessors and no row accessor, and the column-only variant has the row accessors and no
  column accessor.
\<close>

theorem iteration_capabilities:
  assumes "TransposeMatrix_instantiable (Trait V) M"
  shows "(TransposeMatrix_rowBegin V M \<sigma> \<noteq> None \<longrightarrow> has_col_iterators M) \<and>
   (TransposeMatrix_rowEnd V M \<sigma> \<noteq> None \<longrightarrow> has_col_iterators M) \<and>
   (TransposeMatrix_colBegin V M \<sigma> \<noteq> None \<longrightarrow> has_row_iterators M) \<and>
   (TransposeMatrix_colEnd V M \<sigma> \<noteq> None \<longrightarrow> has_row_iterators M) \<and>
   ((Trait V = RowMatrixTag \<longrightarrow> \<not> has_col_iterators M) \<and>
    (Trait V = ColMatrixTag \<longrightarrow> \<not> has_row_iterators M) \<longrightarrow>
      (TransposeMatrix_rowBegin V M \<sigma> \<noteq> None) = has_col_iterators M \<and>
      (TransposeMatrix_rowEnd V M \<sigma> \<noteq> None) = has_col_iterators M \<and>
      (TransposeMatrix_colBegin V M \<sigma> \<noteq> None) = has_row_iterators M \<and>
      (TransposeMatrix_colEnd V M \<sigma> \<noteq> None) = has_row_iterators M) \<and>
   TransposeMatrix_rowBegin (TransposeMatrix RowMatrixTag a) M \<sigma> = None \<and>
   TransposeMatrix_rowEnd (TransposeMatrix RowMatrixTag a) M \<sigma> = None \<and>
   TransposeMatrix_colBegin (TransposeMatrix RowMatrixTag a) M \<sigma> \<noteq> None \<and>
   TransposeMatrix_colEnd (TransposeMatrix RowMatrixTag a) M \<sigma> \<noteq> None \<and>
   TransposeMatrix_colBegin (TransposeMatrix ColMatrixTag a) M \<sigma> = None \<and>
   TransposeMatrix_colEnd (TransposeMatrix ColMatrixTag a) M \<sigma> = None \<and>
   TransposeMatrix_rowBegin (TransposeMatrix ColMatrixTag a) M \<sigma> \<noteq> None \<and>
   TransposeMatrix_rowEnd (TransposeMatrix ColMatrixTag a) M \<sigma> \<noteq> None"
proof -
  obtain t b where V: "V = TransposeMatrix t b" by (cases V)
  show ?thesis using assms unfolding V by (cases t) simp_all
qed

theorem iteration_capabilities_witness:
  "TransposeMatrix_instantiable (Trait (TransposeMatrix RowMatrixTag 0))
     (Sparse :: (int SparseMatrix, int, (nat \<times> int) list, (nat \<times> int) list) Matrix) \<and>
   has_row_iterators (Sparse :: (int SparseMatrix, int, (nat \<times> int) list, (nat \<times> int) list) Matrix) \<and>
   \<not> has_col_iterators (Sparse :: (int SparseMatrix, int, (nat \<times> int) list, (nat \<times> int) list) Matrix) \<and>
   TransposeMatrix_rowBegin (TransposeMatrix RowMatrixTag 0) Sparse example_store = None \<and>
   TransposeMatrix_rowEnd (TransposeMatrix RowMatrixTag 0) Sparse example_store = None \<and>
   TransposeMatrix_colBegin (TransposeMatrix RowMatrixTag 0) Sparse example_store \<noteq> None \<and>
   TransposeMatrix_colEnd (TransposeMatrix RowMatrixTag 0) Sparse example_store \<noteq> None"
proof -
  have i: "TransposeMatrix_instantiable (Trait (TransposeMatrix RowMatrixTag 0))
     (Sparse :: (int SparseMatrix, int, (nat \<times> int) list, (nat \<times> int) list) Matrix)"
    by (simp add: Sparse_def)
  from iteration_capabilities [OF i, of example_store 0]
  show ?thesis using i by (simp add: Sparse_def)
qed

text \<open>
  The equivalence does not hold over every wrapped matrix: the dense matrix has column
  iterators, the row-only body is well-formed over it, and the view of that variant has no
  row accessor.
\<close>

theorem iteration_capabilities_counterexample:
  "TransposeMatrix_instantiable RowMatrixTag
     (Dense :: (int DenseMatrix, int, int list, int list) Matrix) \<and>
   \<not> ((TransposeMatrix_rowBegin (TransposeMatrix RowMatrixTag 0) Dense dense_store \<noteq> None) =
        has_col_iterators (Dense :: (int DenseMatrix, int, int list, int list) Matrix))"
  by (simp add: Dense_def)

text \<open>
  C7. In a variant that has the row accessors, the vectors met from \<^verbatim>\<open>view.rowBegin ()\<close>
  to \<^verbatim>\<open>view.rowEnd ()\<close> are, one by one and in the same order, the vectors met from
  \<^verbatim>\<open>wrapped.colBegin ()\<close> to \<^verbatim>\<open>wrapped.colEnd ()\<close>; in a variant that has the column
  accessors, the view's columns are in the same way the wrapped matrix's rows.
\<close>

theorem iteration_sequences:
  "(Trait V \<noteq> RowMatrixTag \<longrightarrow>
      row_sequence V M \<sigma> =
        Some (iterate (colBegin M (\<sigma> (ref_A V))) (colEnd M (\<sigma> (ref_A V))))) \<and>
   (Trait V \<noteq> ColMatrixTag \<longrightarrow>
      col_sequence V M \<sigma> =
        Some (iterate (rowBegin M (\<sigma> (ref_A V))) (rowEnd M (\<sigma> (ref_A V)))))"
proof -
  obtain t b where V: "V = TransposeMatrix t b" by (cases V)
  show ?thesis unfolding V by (cases t) (simp_all add: row_sequence_def col_sequence_def)
qed

lemma dense_example_cols:
  "iterate (colBegin Dense dense_example) (colEnd Dense dense_example) =
     Some [[0, 10], [1, 11], [2, 12]]"
  by code_simp

lemma dense_example_rows:
  "iterate (rowBegin Dense dense_example) (rowEnd Dense dense_example) =
     Some [[0, 1, 2], [10, 11, 12]]"
  by code_simp

theorem iteration_sequences_witness:
  "Trait (TransposeMatrix RowColMatrixTag 0) \<noteq> RowMatrixTag \<and>
   row_sequence (TransposeMatrix RowColMatrixTag 0) Dense dense_store =
     Some (Some [[0, 10], [1, 11], [2, 12]]) \<and>
   Trait (TransposeMatrix RowColMatrixTag 0) \<noteq> ColMatrixTag \<and>
   col_sequence (TransposeMatrix RowColMatrixTag 0) Dense dense_store =
     Some (Some [[0, 1, 2], [10, 11, 12]])"
  using iteration_sequences [of "TransposeMatrix RowColMatrixTag 0" Dense dense_store]
  by (simp add: dense_store_def dense_example_cols dense_example_rows)

text \<open>
  C8. For every view, the raw indexed accessors are the wrapped matrix's own, so the
  traversal through the view meets the same elements in the same order, and every element
  reports the row index and the column index it has in the wrapped matrix: they are not
  exchanged for the view.
\<close>

theorem rawIndexed_unswapped:
  "TransposeMatrix_rawIndexedBegin V M \<sigma> = rawIndexedBegin M (\<sigma> (ref_A V)) \<and>
   TransposeMatrix_rawIndexedEnd V M \<sigma> = rawIndexedEnd M (\<sigma> (ref_A V)) \<and>
   iterate (TransposeMatrix_rawIndexedBegin V M \<sigma>) (TransposeMatrix_rawIndexedEnd V M \<sigma>) =
     iterate (rawIndexedBegin M (\<sigma> (ref_A V))) (rawIndexedEnd M (\<sigma> (ref_A V)))"
proof -
  obtain t b where V: "V = TransposeMatrix t b" by (cases V)
  show ?thesis unfolding V by (cases t) simp_all
qed

text \<open>
  On the sparse matrix of the scenario the element for the entry 5 reports row 1 and
  column 2, its place in the wrapped matrix. Read through the view, the entry is at
  \<open>(2, 1)\<close>, and \<open>(1, 2)\<close> is absent.
\<close>

lemma example_indexed:
  "iterate (rawIndexedBegin Sparse example) (rawIndexedEnd Sparse example) =
     Some [Indexed 0 0 1, Indexed 1 2 5]"
  by code_simp

lemma rawIndexed_example:
  "iterate (TransposeMatrix_rawIndexedBegin V Sparse example_store)
     (TransposeMatrix_rawIndexedEnd V Sparse example_store) =
     Some [Indexed 0 0 1, Indexed 1 2 5]"
  "TransposeMatrix_getEntry V Sparse example_store x 1 2 = (False, x)"
  "TransposeMatrix_getEntry V Sparse example_store x 2 1 = (True, 5)"
proof -
  obtain t b where V: "V = TransposeMatrix t b" by (cases V)
  show "iterate (TransposeMatrix_rawIndexedBegin V Sparse example_store)
     (TransposeMatrix_rawIndexedEnd V Sparse example_store) =
     Some [Indexed 0 0 1, Indexed 1 2 5]"
    unfolding V by (cases t) (simp_all add: example_store_def example_indexed)
qed (simp_all add: getEntry_store Sparse_def example_store_def example_def sparse_getEntry_def)

section \<open>Absent entries and copies\<close>

text \<open>
  C9. For every view and all indices \<open>i\<close>, \<open>j\<close> valid for it, when
  \<^verbatim>\<open>view.getEntry (x, i, j)\<close> returns false, \<^verbatim>\<open>x\<close> holds after the call what it held before,
  over a wrapped matrix whose own failed read leaves \<^verbatim>\<open>x\<close>. The result of the view's read
  is the boolean and \<^verbatim>\<open>x\<close> alone: the view has no error of its own for an absent entry.
\<close>

theorem getEntry_absent_keeps_x:
  assumes "keeps_x_when_absent M"
    and "i < TransposeMatrix_rowdim V M \<sigma>" and "j < TransposeMatrix_coldim V M \<sigma>"
    and "\<not> fst (TransposeMatrix_getEntry V M \<sigma> x i j)"
  shows "TransposeMatrix_getEntry V M \<sigma> x i j = (False, x)"
proof -
  have "j < rowdim M (\<sigma> (ref_A V))" and "i < coldim M (\<sigma> (ref_A V))"
    using assms(2,3) by (rule valid_swapped)+
  moreover from assms(4) have "\<not> fst (getEntry M (\<sigma> (ref_A V)) x j i)"
    by (simp add: getEntry_store)
  ultimately have "snd (getEntry M (\<sigma> (ref_A V)) x j i) = x"
    using assms(1) unfolding keeps_x_when_absent_def by blast
  with assms(4) show ?thesis
    by (cases "getEntry M (\<sigma> (ref_A V)) x j i") (simp add: getEntry_store)
qed

theorem getEntry_absent_keeps_x_witness:
  "keeps_x_when_absent (Sparse :: (int SparseMatrix, int, (nat \<times> int) list, (nat \<times> int) list) Matrix) \<and>
   0 < TransposeMatrix_rowdim (TransposeMatrix RowMatrixTag 0) Sparse example_store \<and>
   1 < TransposeMatrix_coldim (TransposeMatrix RowMatrixTag 0) Sparse example_store \<and>
   \<not> fst (TransposeMatrix_getEntry (TransposeMatrix RowMatrixTag 0) Sparse example_store 7 0 1) \<and>
   TransposeMatrix_getEntry (TransposeMatrix RowMatrixTag 0) Sparse example_store 7 0 1 =
     (False, 7)"
proof -
  let ?V = "TransposeMatrix RowMatrixTag 0"
  have r: "0 < TransposeMatrix_rowdim ?V Sparse example_store"
    and c: "1 < TransposeMatrix_coldim ?V Sparse example_store"
    by (simp_all add: example_dims)
  have f: "\<not> fst (TransposeMatrix_getEntry ?V Sparse example_store 7 0 1)"
    by (simp add: Sparse_def example_store_def example_def sparse_getEntry_def)
  from getEntry_absent_keeps_x [OF sparse_keeps_x_when_absent r c f]
  show ?thesis using r c f sparse_keeps_x_when_absent by simp
qed

text \<open>
  C10. A copy \<open>C\<close> of a view \<open>V\<close> of the matrix at address \<open>A\<close> refers to the same address:
  no matrix is copied. For all indices valid for the view, a read through \<open>C\<close> returns
  what the read through \<open>V\<close> returns, \<^verbatim>\<open>C.setEntry (i, j, v)\<close> is the write that
  \<^verbatim>\<open>V.setEntry (i, j, v)\<close> is, and every such write that is performed leaves \<open>v\<close> to be
  read through \<open>V\<close> at \<open>(i, j)\<close> and in the matrix at \<open>(j, i)\<close>, and every other matrix of
  the store as before; over a wrapped matrix that returns at a valid position the entry
  set there. The write is performed in every variant but the column-only one, and there
  over a matrix with a const \<^verbatim>\<open>setEntry\<close>.
\<close>

theorem copy_shares_matrix:
  assumes "stores_on_set M"
    and "i < TransposeMatrix_rowdim V M \<sigma>" and "j < TransposeMatrix_coldim V M \<sigma>"
  shows "ref_A (TransposeMatrix_copy V) = ref_A V \<and>
    TransposeMatrix_getEntry (TransposeMatrix_copy V) M \<sigma> x i j =
      TransposeMatrix_getEntry V M \<sigma> x i j \<and>
    TransposeMatrix_setEntry (TransposeMatrix_copy V) M \<sigma> i j v =
      TransposeMatrix_setEntry V M \<sigma> i j v \<and>
    (TransposeMatrix_setEntry (TransposeMatrix_copy V) M \<sigma> i j v \<noteq> None) =
      (Trait V = ColMatrixTag \<longrightarrow> setEntry_const M) \<and>
    (\<forall>\<sigma>'. TransposeMatrix_setEntry (TransposeMatrix_copy V) M \<sigma> i j v = Some \<sigma>' \<longrightarrow>
       TransposeMatrix_getEntry V M \<sigma>' x i j = (True, v) \<and>
       getEntry M (\<sigma>' (ref_A V)) x j i = (True, v) \<and>
       (\<forall>b. b \<noteq> ref_A V \<longrightarrow> \<sigma>' b = \<sigma> b))"
proof -
  have "j < rowdim M (\<sigma> (ref_A V))" and "i < coldim M (\<sigma> (ref_A V))"
    using assms(2,3) by (rule valid_swapped)+
  with assms(1) have "getEntry M (setEntry M (\<sigma> (ref_A V)) j i v) x j i = (True, v)"
    unfolding stores_on_set_def by blast
  then show ?thesis by (simp add: copy_same setEntry_store getEntry_store)
qed

theorem copy_shares_matrix_witness:
  "stores_on_set (Sparse :: (int SparseMatrix, int, (nat \<times> int) list, (nat \<times> int) list) Matrix) \<and>
   0 < TransposeMatrix_rowdim (TransposeMatrix RowMatrixTag 4) Sparse example_store \<and>
   1 < TransposeMatrix_coldim (TransposeMatrix RowMatrixTag 4) Sparse example_store \<and>
   ref_A (TransposeMatrix_copy (TransposeMatrix RowMatrixTag 4)) = 4 \<and>
   TransposeMatrix_getEntry (TransposeMatrix_copy (TransposeMatrix RowMatrixTag 4))
     Sparse example_store 7 2 1 = (True, 5) \<and>
   TransposeMatrix_getEntry (TransposeMatrix RowMatrixTag 4) Sparse example_store 7 2 1
     = (True, 5) \<and>
   TransposeMatrix_setEntry (TransposeMatrix_copy (TransposeMatrix RowMatrixTag 4))
     Sparse example_store 0 1 9 =
     Some (example_store(4 := SparseMatrix 2 3 [((0, 0), 1), ((1, 2), 5), ((1, 0), 9)])) \<and>
   TransposeMatrix_getEntry (TransposeMatrix RowMatrixTag 4) Sparse
     (example_store(4 := SparseMatrix 2 3 [((0, 0), 1), ((1, 2), 5), ((1, 0), 9)])) 7 0 1
     = (True, 9) \<and>
   getEntry Sparse
     ((example_store(4 := SparseMatrix 2 3 [((0, 0), 1), ((1, 2), 5), ((1, 0), 9)])) 4) 7 1 0
     = (True, 9) \<and>
   (example_store(4 := SparseMatrix 2 3 [((0, 0), 1), ((1, 2), 5), ((1, 0), 9)])) 5 = example"
proof -
  let ?V = "TransposeMatrix RowMatrixTag 4"
  let ?s = "example_store(4 := SparseMatrix 2 3 [((0, 0), 1), ((1, 2), 5), ((1, 0), 9)])"
  have r: "0 < TransposeMatrix_rowdim ?V Sparse example_store"
    and c: "1 < TransposeMatrix_coldim ?V Sparse example_store"
    by (simp_all add: example_dims)
  have w: "TransposeMatrix_setEntry (TransposeMatrix_copy ?V) Sparse example_store 0 1 9 = Some ?s"
    by (simp add: Sparse_def example_store_def example_def sparse_setEntry_def)
  have g: "TransposeMatrix_getEntry (TransposeMatrix_copy ?V) Sparse example_store 7 2 1 = (True, 5)"
    "TransposeMatrix_getEntry ?V Sparse example_store 7 2 1 = (True, 5)"
    by (simp_all add: Sparse_def example_store_def example_def sparse_getEntry_def)
  from copy_shares_matrix [OF sparse_stores_on_set r c, of 7 9]
  have "TransposeMatrix_getEntry ?V Sparse ?s 7 0 1 = (True, 9) \<and>
    getEntry Sparse (?s (ref_A ?V)) 7 1 0 = (True, 9) \<and> (\<forall>b. b \<noteq> ref_A ?V \<longrightarrow> ?s b = example_store b)"
    using w by blast
  then show ?thesis using r c w g sparse_stores_on_set by (simp add: example_store_def)
qed

end
